theory Spec2Isabelle
  imports Complex_Main "HOL-Library.List_Lexorder" "HOL-Library.Char_ord"
begin

section \<open>Python values used by fx_ingest\<close>

text \<open>
  Strings are modelled as \<open>string\<close> (lists of 8-bit characters), read as ASCII text: the
  currency codes, dates, endpoints and messages of the program are ASCII. Python's
  \<open>str.upper\<close> and \<open>str.strip\<close> are modelled on that range; case mappings and white space
  beyond ASCII are outside the model.

  A parsed JSON document (the result of \<open>response.json()\<close> or \<open>json.loads\<close>) is a value of
  \<open>'f json\<close>. A \<open>dict\<close> is an association list in insertion order, as Python dictionaries
  iterate; its keys are distinct in every value Python can build. The type parameter
  \<open>'f\<close> stands for Python's \<open>float\<close>: the program only passes floats along, so nothing
  about their arithmetic is needed.
\<close>

datatype 'f json =
    JNull
  | JBool bool
  | JInt int
  | JFloat 'f
  | JStr string
  | JList "'f json list"
  | JDict "(string \<times> 'f json) list"

text \<open>Exceptions, as values. \<open>ValueError\<close> carries the message the source raises it with.\<close>

datatype error =
    ValueError string
  | TypeError string
  | AttributeError string
  | OverflowError string
  | HTTPError int
  | RequestException string
  | JSONDecodeError string

text \<open>
  Library functions that the program calls and that are not part of the repository are
  parameters, collected in one record:
  \<^item> \<open>float_json\<close>: how \<open>json.dumps\<close> prints a float;
  \<^item> \<open>float_str\<close>: \<open>str(x)\<close> of a float;
  \<^item> \<open>float_of_int\<close>: \<open>float(i)\<close> of an integer (\<open>OverflowError\<close> when too large);
  \<^item> \<open>float_of_str\<close>: \<open>float(s)\<close> of a string (\<open>ValueError\<close> when not a number);
  \<^item> \<open>float_truth\<close>: the truth value of a float (\<open>x != 0.0\<close>);
  \<^item> \<open>container_str\<close>: \<open>str(v)\<close> of a list or a dict;
  \<^item> \<open>sha256_hexdigest\<close>: \<open>hashlib.sha256(bytes).hexdigest()\<close>;
  \<^item> \<open>json_loads\<close>: \<open>json.loads\<close>.
\<close>

record 'f pylib =
  float_json :: "'f \<Rightarrow> string"
  float_str :: "'f \<Rightarrow> string"
  float_of_int :: "int \<Rightarrow> error + 'f"
  float_of_str :: "string \<Rightarrow> error + 'f"
  float_truth :: "'f \<Rightarrow> bool"
  container_str :: "'f json \<Rightarrow> string"
  sha256_hexdigest :: "string \<Rightarrow> string"
  json_loads :: "string \<Rightarrow> error + 'f json"

subsection \<open>Strings\<close>

text \<open>The ASCII characters for which \<open>str.isspace\<close> holds: 9 to 13 and 28 to 32.\<close>

definition is_space :: "char \<Rightarrow> bool" where
  "is_space c = (let n = (of_char c :: nat) in (9 \<le> n \<and> n \<le> 13) \<or> (28 \<le> n \<and> n \<le> 32))"

definition strip :: "string \<Rightarrow> string" where
  "strip s = rev (dropWhile is_space (rev (dropWhile is_space s)))"

definition upper_char :: "char \<Rightarrow> char" where
  "upper_char c =
     (let n = (of_char c :: nat) in if 97 \<le> n \<and> n \<le> 122 then char_of (n - 32) else c)"

definition upper :: "string \<Rightarrow> string" where
  "upper s = map upper_char s"

text \<open>\<open>sep.join(xs)\<close>.\<close>

fun join :: "string \<Rightarrow> string list \<Rightarrow> string" where
  "join sep [] = []"
| "join sep [x] = x"
| "join sep (x # y # ys) = x @ sep @ join sep (y # ys)"

fun digits :: "nat \<Rightarrow> string" where
  "digits n =
     (if n < 10 then [char_of (48 + n)] else digits (n div 10) @ [char_of (48 + n mod 10)])"

definition str_int :: "int \<Rightarrow> string" where
  "str_int i = (if i < 0 then CHR ''-'' # digits (nat (- i)) else digits (nat i))"

text \<open>Truth value of a parsed JSON value, as \<open>or\<close> and \<open>if\<close> test it.\<close>

fun truthy :: "'f pylib \<Rightarrow> 'f json \<Rightarrow> bool" where
  "truthy lib JNull = False"
| "truthy lib (JBool b) = b"
| "truthy lib (JInt i) = (i \<noteq> 0)"
| "truthy lib (JFloat x) = float_truth lib x"
| "truthy lib (JStr s) = (s \<noteq> [])"
| "truthy lib (JList xs) = (xs \<noteq> [])"
| "truthy lib (JDict kvs) = (kvs \<noteq> [])"

text \<open>\<open>str(v)\<close>.\<close>

fun py_str :: "'f pylib \<Rightarrow> 'f json \<Rightarrow> string" where
  "py_str lib JNull = ''None''"
| "py_str lib (JBool b) = (if b then ''True'' else ''False'')"
| "py_str lib (JInt i) = str_int i"
| "py_str lib (JFloat x) = float_str lib x"
| "py_str lib (JStr s) = s"
| "py_str lib (JList xs) = container_str lib (JList xs)"
| "py_str lib (JDict kvs) = container_str lib (JDict kvs)"

text \<open>\<open>float(v)\<close>. A \<open>bool\<close> is an \<open>int\<close> in Python.\<close>

fun to_float :: "'f pylib \<Rightarrow> 'f json \<Rightarrow> error + 'f" where
  "to_float lib (JFloat x) = Inr x"
| "to_float lib (JInt i) = float_of_int lib i"
| "to_float lib (JBool b) = float_of_int lib (if b then 1 else 0)"
| "to_float lib (JStr s) = float_of_str lib s"
| "to_float lib v = Inl (TypeError ''float() argument must be a string or a real number'')"

text \<open>\<open>isinstance(v, (int, float))\<close>.\<close>

fun is_number :: "'f json \<Rightarrow> bool" where
  "is_number (JInt i) = True"
| "is_number (JFloat x) = True"
| "is_number (JBool b) = True"
| "is_number v = False"

text \<open>\<open>d.get(k)\<close> on a parsed dict; the program calls it on validated payloads only.\<close>

fun dict_get :: "'f json \<Rightarrow> string \<Rightarrow> 'f json option" where
  "dict_get (JDict kvs) k = map_of kvs k"
| "dict_get v k = None"

subsection \<open>json.dumps\<close>

text \<open>
  \<open>json.dumps(v, sort_keys=sk)\<close> with the default separators and \<open>ensure_ascii=True\<close>.
  With \<open>sort_keys\<close> the items of every dict are sorted; keys are distinct, so the order
  of the items is the order of their keys.
\<close>

definition hex_digit :: "nat \<Rightarrow> char" where
  "hex_digit n = (if n < 10 then char_of (48 + n) else char_of (87 + n))"

definition escape_char :: "char \<Rightarrow> string" where
  "escape_char c =
     (let n = (of_char c :: nat) in
      if n = 0x22 then [CHR 0x5C, CHR 0x22]
      else if n = 0x5C then [CHR 0x5C, CHR 0x5C]
      else if n = 10 then [CHR 0x5C, CHR ''n'']
      else if n = 13 then [CHR 0x5C, CHR ''r'']
      else if n = 9 then [CHR 0x5C, CHR ''t'']
      else if n = 8 then [CHR 0x5C, CHR ''b'']
      else if n = 12 then [CHR 0x5C, CHR ''f'']
      else if 32 \<le> n \<and> n \<le> 126 then [c]
      else [CHR 0x5C, CHR ''u'', CHR ''0'', CHR ''0'', hex_digit (n div 16), hex_digit (n mod 16)])"

definition encode_basestring_ascii :: "string \<Rightarrow> string" where
  "encode_basestring_ascii s = [CHR 0x22] @ concat (map escape_char s) @ [CHR 0x22]"

function dumps :: "('f \<Rightarrow> string) \<Rightarrow> bool \<Rightarrow> 'f json \<Rightarrow> string" where
  "dumps fj sk JNull = ''null''"
| "dumps fj sk (JBool b) = (if b then ''true'' else ''false'')"
| "dumps fj sk (JInt i) = str_int i"
| "dumps fj sk (JFloat x) = fj x"
| "dumps fj sk (JStr s) = encode_basestring_ascii s"
| "dumps fj sk (JList xs) = ''['' @ join '', '' (map (dumps fj sk) xs) @ '']''"
| "dumps fj sk (JDict kvs) =
     ''{'' @ join '', ''
        (map (\<lambda>kv. encode_basestring_ascii (fst kv) @ '': '' @ dumps fj sk (snd kv))
             (if sk then sort_key fst kvs else kvs)) @ ''}''"
  by pat_completeness auto
termination
proof (relation "measure (\<lambda>(fj, sk, v). size v)", goal_cases)
  case 1
  show ?case by simp
next
  case (2 fj sk xs x)
  then show ?case by (simp add: size_list_estimation' less_Suc_eq_le)
next
  case (3 fj sk kvs kv)
  then have "kv \<in> set kvs" by (simp split: if_splits)
  then have "size_prod (\<lambda>_. 0) size kv \<le> size_list (size_prod (\<lambda>_. 0) size) kvs"
    by (simp add: size_list_estimation')
  then show ?case by (cases kv) simp
qed

section \<open>Rate client and cache store (api.py)\<close>

record client =
  base_url :: string
  cache_dir :: string
  timeout_seconds :: int
  use_cache :: bool

text \<open>
  What a fetch can do to the outside: test, read and write files, and send one GET. The
  world holds the files by path and the list of effects performed so far, oldest first.
  A file exists when the map has its path; \<open>self.use_cache and cache_file.exists()\<close>
  tests the file only when the cache is in use.
\<close>

datatype 'f event =
    PathExists string
  | ReadText string
  | WriteText string string
  | HttpGet string "(string \<times> 'f json) list" int

record 'f world =
  files :: "string \<rightharpoonup> string"
  trace :: "'f event list"

definition emit :: "'f event \<Rightarrow> 'f world \<Rightarrow> 'f world" where
  "emit ev w = w\<lparr>trace := trace w @ [ev]\<rparr>"

text \<open>
  The answer of \<open>requests.get\<close>: its status code and what \<open>response.json()\<close> gives
  (the parsed body or the exception). The network is a parameter: a function from the
  request (url, params, timeout) to an exception or a response.
\<close>

record 'f response =
  status_code :: int
  json_body :: "error + 'f json"

type_synonym 'f network = "string \<Rightarrow> (string \<times> 'f json) list \<Rightarrow> int \<Rightarrow> error + 'f response"

definition raise_for_status :: "'f response \<Rightarrow> error + unit" where
  "raise_for_status r =
     (if 400 \<le> status_code r \<and> status_code r < 600 then Inl (HTTPError (status_code r))
      else Inr ())"

definition validate_payload :: "'f json \<Rightarrow> error + unit" where
  "validate_payload payload =
     (case payload of
        JDict kvs \<Rightarrow>
          (case map_of kvs ''rates'' of
             None \<Rightarrow> Inl (ValueError ''Resposta da API invalida: campo rates ausente.'')
           | Some (JDict rates) \<Rightarrow> Inr ()
           | Some _ \<Rightarrow> Inl (ValueError ''Resposta da API invalida: rates deve ser objeto.''))
      | _ \<Rightarrow> Inl (ValueError ''Resposta da API invalida: payload nao e objeto.''))"

definition clean_symbols :: "string list \<Rightarrow> error + string list" where
  "clean_symbols symbols =
     (let cleaned = map (\<lambda>s. upper (strip s)) (filter (\<lambda>s. strip s \<noteq> []) symbols)
      in if cleaned = [] then Inl (ValueError ''Informe ao menos um symbol.'') else Inr cleaned)"

text \<open>
  \<open>key.encode("utf-8")\<close> is the identity here: with \<open>ensure_ascii\<close> the serialization
  is ASCII.
\<close>

definition cache_key :: "'f pylib \<Rightarrow> string \<Rightarrow> (string \<times> 'f json) list \<Rightarrow> string" where
  "cache_key lib endpoint params =
     (let key = dumps (float_json lib) True
                  (JDict [(''endpoint'', JStr endpoint), (''params'', JDict params)])
      in sha256_hexdigest lib key)"

definition cache_file :: "'f pylib \<Rightarrow> client \<Rightarrow> string \<Rightarrow> (string \<times> 'f json) list \<Rightarrow> string" where
  "cache_file lib c endpoint params = cache_dir c @ ''/'' @ cache_key lib endpoint params @ ''.json''"

definition get_json ::
  "'f pylib \<Rightarrow> 'f network \<Rightarrow> client \<Rightarrow> string \<Rightarrow> (string \<times> 'f json) list \<Rightarrow> 'f world
     \<Rightarrow> (error + 'f json) \<times> 'f world" where
  "get_json lib net c endpoint params w =
     (let cf = cache_file lib c endpoint params;
          w1 = (if use_cache c then emit (PathExists cf) w else w)
      in case (if use_cache c then files w cf else None) of
           Some text \<Rightarrow> (json_loads lib text, emit (ReadText cf) w1)
         | None \<Rightarrow>
            (let url = base_url c @ endpoint;
                 w2 = emit (HttpGet url params (timeout_seconds c)) w1
             in case net url params (timeout_seconds c) of
                  Inl e \<Rightarrow> (Inl e, w2)
                | Inr resp \<Rightarrow>
                   (case raise_for_status resp of
                      Inl e \<Rightarrow> (Inl e, w2)
                    | Inr u \<Rightarrow>
                       (case json_body resp of
                          Inl e \<Rightarrow> (Inl e, w2)
                        | Inr payload \<Rightarrow>
                           (case validate_payload payload of
                              Inl e \<Rightarrow> (Inl e, w2)
                            | Inr u' \<Rightarrow>
                               if use_cache c
                               then (let text = dumps (float_json lib) False payload
                                     in (Inr payload,
                                         emit (WriteText cf text)
                                           (w2\<lparr>files := (files w2)(cf \<mapsto> text)\<rparr>)))
                               else (Inr payload, w2))))))"

definition fetch_latest ::
  "'f pylib \<Rightarrow> 'f network \<Rightarrow> client \<Rightarrow> string \<Rightarrow> string list \<Rightarrow> 'f world
     \<Rightarrow> (error + 'f json) \<times> 'f world" where
  "fetch_latest lib net c base_arg symbols w =
     (case clean_symbols symbols of
        Inl e \<Rightarrow> (Inl e, w)
      | Inr cleaned \<Rightarrow>
          get_json lib net c ''/v1/latest''
            [(''base'', JStr (upper base_arg)), (''symbols'', JStr (join '','' cleaned))] w)"

definition fetch_timeseries ::
  "'f pylib \<Rightarrow> 'f network \<Rightarrow> client \<Rightarrow> string \<Rightarrow> string \<Rightarrow> string \<Rightarrow> string list \<Rightarrow> 'f world
     \<Rightarrow> (error + 'f json) \<times> 'f world" where
  "fetch_timeseries lib net c start end_arg base_arg symbols w =
     (case clean_symbols symbols of
        Inl e \<Rightarrow> (Inl e, w)
      | Inr cleaned \<Rightarrow>
          get_json lib net c (''/v1/'' @ start @ ''..'' @ end_arg)
            [(''base'', JStr (upper base_arg)), (''symbols'', JStr (join '','' cleaned))] w)"

section \<open>Normalizer (api.py)\<close>

record 'f rate_row =
  date :: string
  base :: string
  symbol :: string
  rate :: 'f
  source :: string
  fetched_at :: string

text \<open>
  The loop over the items of one symbol-to-rate dict, which both shapes run: one row per
  item, in the order of the dict; the first \<open>float(rate)\<close> that raises ends it.
\<close>

fun symbol_rows ::
  "'f pylib \<Rightarrow> string \<Rightarrow> string \<Rightarrow> string \<Rightarrow> string \<Rightarrow> (string \<times> 'f json) list
     \<Rightarrow> error + 'f rate_row list" where
  "symbol_rows lib row_date base_value src timestamp [] = Inr []"
| "symbol_rows lib row_date base_value src timestamp ((symb, r) # rest) =
     (case to_float lib r of
        Inl e \<Rightarrow> Inl e
      | Inr x \<Rightarrow>
         (case symbol_rows lib row_date base_value src timestamp rest of
            Inl e \<Rightarrow> Inl e
          | Inr rows \<Rightarrow>
              Inr (\<lparr>date = row_date, base = base_value, symbol = upper symb, rate = x,
                    source = src, fetched_at = timestamp\<rparr> # rows)))"

text \<open>The loop of the series shape over the dates.\<close>

fun series_rows ::
  "'f pylib \<Rightarrow> string \<Rightarrow> string \<Rightarrow> string \<Rightarrow> (string \<times> 'f json) list
     \<Rightarrow> error + 'f rate_row list" where
  "series_rows lib base_value src timestamp [] = Inr []"
| "series_rows lib base_value src timestamp ((row_date, per_symbol) # rest) =
     (case per_symbol of
        JDict items \<Rightarrow>
          (case symbol_rows lib row_date base_value src timestamp items of
             Inl e \<Rightarrow> Inl e
           | Inr rows \<Rightarrow>
              (case series_rows lib base_value src timestamp rest of
                 Inl e \<Rightarrow> Inl e
               | Inr rows' \<Rightarrow> Inr (rows @ rows')))
      | _ \<Rightarrow> Inl (ValueError ''Formato de rates invalido para serie temporal.''))"

text \<open>\<open>(base or payload.get("base") or "").upper()\<close>.\<close>

definition base_value_of :: "'f pylib \<Rightarrow> string option \<Rightarrow> 'f json \<Rightarrow> error + string" where
  "base_value_of lib base_arg payload =
     (let from_payload =
            (case dict_get payload ''base'' of
               None \<Rightarrow> Inr (upper [])
             | Some v \<Rightarrow>
                 if truthy lib v
                 then (case v of JStr s \<Rightarrow> Inr (upper s)
                               | _ \<Rightarrow> Inl (AttributeError ''upper''))
                 else Inr (upper []))
      in case base_arg of
           None \<Rightarrow> from_payload
         | Some b \<Rightarrow> if b \<noteq> [] then Inr (upper b) else from_payload)"

text \<open>
  \<open>normalize_payload(payload, base, source, fetched_at)\<close>; \<open>now\<close> is what
  \<open>datetime.now(timezone.utc).isoformat()\<close> reads.
\<close>

definition normalize_payload ::
  "'f pylib \<Rightarrow> string \<Rightarrow> 'f json \<Rightarrow> string option \<Rightarrow> string \<Rightarrow> string option
     \<Rightarrow> error + 'f rate_row list" where
  "normalize_payload lib now payload base_arg src fetched_at_arg =
     (case validate_payload payload of
        Inl e \<Rightarrow> Inl e
      | Inr u \<Rightarrow>
         (case base_value_of lib base_arg payload of
            Inl e \<Rightarrow> Inl e
          | Inr base_value \<Rightarrow>
             if base_value = [] then Inl (ValueError ''Payload sem base valida.'')
             else
               let timestamp = (case fetched_at_arg of
                                  None \<Rightarrow> now
                                | Some t \<Rightarrow> if t \<noteq> [] then t else now);
                   rates = (case dict_get payload ''rates'' of
                              Some (JDict items) \<Rightarrow> items
                            | _ \<Rightarrow> [])
               in if rates \<noteq> [] \<and> list_all (\<lambda>kv. is_number (snd kv)) rates
                  then
                    let row_date = (case dict_get payload ''date'' of
                                      None \<Rightarrow> py_str lib (JStr [])
                                    | Some v \<Rightarrow> py_str lib v)
                    in if row_date = [] then Inl (ValueError ''Payload latest sem campo date.'')
                       else symbol_rows lib row_date base_value src timestamp rates
                  else series_rows lib base_value src timestamp rates))"

section \<open>Storage engine (db.py)\<close>

text \<open>
  A table is the list of its rows. A row of \<open>fx_rates\<close> is a rate row with the two
  columns the schema fills in. SQLite's \<open>CURRENT_TIMESTAMP\<close> is a text
  \<open>YYYY-MM-DD HH:MM:SS\<close>, with a resolution of one second; such texts are ordered in
  time by the order of strings. The state is the one after \<open>init_db\<close>: both tables exist.
\<close>

record 'f fx_rate = "'f rate_row" +
  created_at :: string
  updated_at :: string

record ingest_run =
  rid :: int
  command :: string
  args :: "string option"
  status :: string
  started_at :: string
  finished_at :: "string option"
  rows_inserted :: int
  error_message :: "string option"

record 'f db =
  fx_rates :: "'f fx_rate list"
  ingest_runs :: "ingest_run list"
  sqlite_sequence :: int

text \<open>The primary key of \<open>fx_rates\<close>.\<close>

definition pk :: "('f, 'a) rate_row_scheme \<Rightarrow> string \<times> string \<times> string" where
  "pk r = (date r, base r, symbol r)"

text \<open>
  One execution of \<open>UPSERT_SQL\<close> with the named parameters of \<open>r\<close>, at a moment when
  \<open>CURRENT_TIMESTAMP\<close> reads \<open>now\<close>: the conflicting row is updated in place, or else a
  row is inserted with both defaults.
\<close>

definition upsert :: "string \<Rightarrow> 'f rate_row \<Rightarrow> 'f fx_rate list \<Rightarrow> 'f fx_rate list" where
  "upsert now r tbl =
     (if pk r \<in> set (map pk tbl)
      then map (\<lambda>s. if pk s = pk r
                     then s\<lparr>rate := rate r, source := source r, fetched_at := fetched_at r,
                            updated_at := now\<rparr>
                     else s) tbl
      else tbl @ [\<lparr>date = date r, base = base r, symbol = symbol r, rate = rate r,
                   source = source r, fetched_at = fetched_at r,
                   created_at = now, updated_at = now\<rparr>])"

text \<open>
  \<open>executemany\<close>: the statement once per row, in order; \<open>clock i\<close> is what
  \<open>CURRENT_TIMESTAMP\<close> reads during the execution number \<open>i\<close> of the batch.
\<close>

fun executemany ::
  "(nat \<Rightarrow> string) \<Rightarrow> nat \<Rightarrow> 'f rate_row list \<Rightarrow> 'f fx_rate list \<Rightarrow> 'f fx_rate list" where
  "executemany clock i [] tbl = tbl"
| "executemany clock i (r # rs) tbl = executemany clock (Suc i) rs (upsert (clock i) r tbl)"

definition upsert_rates :: "(nat \<Rightarrow> string) \<Rightarrow> 'f rate_row list \<Rightarrow> 'f db \<Rightarrow> int \<times> 'f db" where
  "upsert_rates clock rows d =
     (if rows = [] then (0, d)
      else (int (length rows), d\<lparr>fx_rates := executemany clock 0 rows (fx_rates d)\<rparr>))"

text \<open>
  \<open>start_ingest_run\<close>; \<open>now\<close> is \<open>datetime.now(timezone.utc).isoformat()\<close>. The id is
  the one \<open>AUTOINCREMENT\<close> assigns: one more than the largest ever used.
\<close>

definition start_ingest_run ::
  "'f pylib \<Rightarrow> string \<Rightarrow> string \<Rightarrow> 'f json \<Rightarrow> 'f db \<Rightarrow> int \<times> 'f db" where
  "start_ingest_run lib now cmd args_dict d =
     (let new_id = sqlite_sequence d + 1;
          run = \<lparr>rid = new_id, command = cmd,
                 args = Some (dumps (float_json lib) True args_dict),
                 status = ''RUNNING'', started_at = now, finished_at = None,
                 rows_inserted = 0, error_message = None\<rparr>
      in (new_id, d\<lparr>ingest_runs := ingest_runs d @ [run], sqlite_sequence := new_id\<rparr>))"

text \<open>
  An integer parameter of a statement is bound as an SQLite \<open>INTEGER\<close>, a signed
  64-bit value: for a Python \<open>int\<close> outside that range the \<open>sqlite3\<close> module raises
  \<open>OverflowError\<close> when it binds the parameters, before the statement runs.
\<close>

definition in_sqlite_range :: "int \<Rightarrow> bool" where
  "in_sqlite_range i = (- (2 ^ 63) \<le> i \<and> i < 2 ^ 63)"

text \<open>
  \<open>finish_ingest_run\<close>: one \<open>UPDATE ... WHERE id = ?\<close>, which sets the four columns
  of every row with that id. The source has no other statement and no test of the row.
  Its two integer parameters, \<open>rows_inserted\<close> and \<open>run_id\<close>, are bound by the
  \<open>sqlite3\<close> module; when one is out of range the call raises and the store is as it
  was. The result is the exception or \<open>None\<close>, with the store after the call.
\<close>

definition finish_ingest_run ::
  "string \<Rightarrow> int \<Rightarrow> string \<Rightarrow> int \<Rightarrow> string option \<Rightarrow> 'f db \<Rightarrow> (error + unit) \<times> 'f db" where
  "finish_ingest_run now run_id new_status n err d =
     (if in_sqlite_range n \<and> in_sqlite_range run_id
      then (Inr (),
            d\<lparr>ingest_runs :=
                map (\<lambda>r. if rid r = run_id
                          then r\<lparr>status := new_status, finished_at := Some now,
                                 rows_inserted := n, error_message := err\<rparr>
                          else r) (ingest_runs d)\<rparr>)
      else (Inl (OverflowError ''Python int too large to convert to SQLite INTEGER''), d))"

section \<open>Auxiliary notions\<close>

text \<open>
  The definitions of this section are not functions of the program: they name what the
  theorems speak about and what the proofs compute with.
\<close>

text \<open>The effects performed between a world and a later one.\<close>

definition new_events :: "'f world \<Rightarrow> 'f world \<Rightarrow> 'f event list" where
  "new_events w w' = drop (length (trace w)) (trace w')"

text \<open>The columns of a stored row that an upsert supplies: the key and the three values.\<close>

definition stored :: "'f fx_rate \<Rightarrow> (string \<times> string \<times> string) \<times> 'f \<times> string \<times> string" where
  "stored s = (pk s, rate s, source s, fetched_at s)"

text \<open>What the \<open>DO UPDATE\<close> branch of one execution does to one stored row.\<close>

definition overwrite :: "string \<Rightarrow> 'f rate_row \<Rightarrow> 'f fx_rate \<Rightarrow> 'f fx_rate" where
  "overwrite now r s =
     (if pk s = pk r
      then s\<lparr>rate := rate r, source := source r, fetched_at := fetched_at r, updated_at := now\<rparr>
      else s)"

text \<open>What a batch whose keys are all present does to one stored row.\<close>

fun overwrites :: "(nat \<Rightarrow> string) \<Rightarrow> nat \<Rightarrow> 'f rate_row list \<Rightarrow> 'f fx_rate \<Rightarrow> 'f fx_rate" where
  "overwrites clock i [] s = s"
| "overwrites clock i (r # rs) s = overwrites clock (Suc i) rs (overwrite (clock i) r s)"

text \<open>The values a batch leaves under key \<open>k\<close>, given the values \<open>v\<close> before it.\<close>

fun settle ::
  "'f rate_row list \<Rightarrow> string \<times> string \<times> string \<Rightarrow> 'f \<times> string \<times> string
     \<Rightarrow> 'f \<times> string \<times> string" where
  "settle [] k v = v"
| "settle (r # rs) k v = settle rs k (if pk r = k then (rate r, source r, fetched_at r) else v)"

section \<open>Example values\<close>

text \<open>
  Concrete inputs on which the theorems are evaluated. Floats are written as reals. The
  theorems hold for every choice of the library parameters; the instance below fixes one,
  with the identity in place of the hash.
\<close>

definition example_lib :: "real pylib" where
  "example_lib =
     \<lparr>float_json = (\<lambda>x. ''0.0''), float_str = (\<lambda>x. ''0.0''),
      float_of_int = (\<lambda>i. Inr (of_int i)),
      float_of_str = (\<lambda>s. Inl (ValueError ''could not convert string to float'')),
      float_truth = (\<lambda>x. x \<noteq> 0), container_str = (\<lambda>v. ''[]''),
      sha256_hexdigest = (\<lambda>s. s),
      json_loads = (\<lambda>s. Inl (JSONDecodeError ''Expecting value''))\<rparr>"

definition example_client :: client where
  "example_client =
     \<lparr>base_url = ''https://api.frankfurter.dev'', cache_dir = ''.cache/http'',
      timeout_seconds = 20, use_cache = True\<rparr>"

definition empty_world :: "real world" where
  "empty_world = \<lparr>files = Map.empty, trace = []\<rparr>"

text \<open>A network that answers every request with status 200 and the given body.\<close>

definition answer :: "'f json \<Rightarrow> 'f network" where
  "answer body = (\<lambda>url params timeout. Inr \<lparr>status_code = 200, json_body = Inr body\<rparr>)"

text \<open>The snapshot payload of the smoke test, with the two rates as parameters.\<close>

definition snapshot_payload :: "'f \<Rightarrow> 'f \<Rightarrow> 'f json" where
  "snapshot_payload x y =
     JDict [(''date'', JStr ''2026-02-10''), (''base'', JStr ''USD''),
            (''rates'', JDict [(''BRL'', JFloat x), (''EUR'', JFloat y)])]"

text \<open>A body without \<open>rates\<close>, and a body whose \<open>rates\<close> is the empty dict and nothing else.\<close>

definition no_rates_payload :: "real json" where
  "no_rates_payload = JDict [(''base'', JStr ''USD''), (''date'', JStr ''2026-02-10'')]"

definition empty_rates_payload :: "real json" where
  "empty_rates_payload = JDict [(''rates'', JDict [])]"

definition latest_params :: "real json \<Rightarrow> (string \<times> real json) list" where
  "latest_params symbols_value = [(''base'', JStr ''USD''), (''symbols'', symbols_value)]"

definition brl_row :: "'f \<Rightarrow> 'f rate_row" where
  "brl_row x =
     \<lparr>date = ''2026-02-10'', base = ''USD'', symbol = ''BRL'', rate = x,
      source = ''frankfurter'', fetched_at = ''2026-02-10T00:00:00+00:00''\<rparr>"

definition eur_row :: "'f \<Rightarrow> 'f rate_row" where
  "eur_row x =
     \<lparr>date = ''2026-02-10'', base = ''USD'', symbol = ''EUR'', rate = x,
      source = ''frankfurter'', fetched_at = ''2026-02-10T00:00:00+00:00''\<rparr>"

definition finished_run :: ingest_run where
  "finished_run =
     \<lparr>rid = 1, command = ''daily'', args = Some ''{}'', status = ''OK'',
      started_at = ''2026-02-10T00:00:00+00:00'',
      finished_at = Some ''2026-02-10T00:00:05+00:00'',
      rows_inserted = 2, error_message = None\<rparr>"

definition running_run :: ingest_run where
  "running_run =
     \<lparr>rid = 2, command = ''backfill'', args = Some ''{}'', status = ''RUNNING'',
      started_at = ''2026-02-10T00:00:30+00:00'', finished_at = None,
      rows_inserted = 0, error_message = None\<rparr>"

definition empty_db :: "real db" where
  "empty_db = \<lparr>fx_rates = [], ingest_runs = [], sqlite_sequence = 0\<rparr>"

definition example_db :: "real db" where
  "example_db =
     \<lparr>fx_rates = [\<lparr>date = ''2026-02-10'', base = ''USD'', symbol = ''BRL'', rate = 5.12,
                    source = ''frankfurter'', fetched_at = ''2026-02-10T00:00:00+00:00'',
                    created_at = ''2026-02-10 00:00:00'', updated_at = ''2026-02-10 00:00:00''\<rparr>,
                  \<lparr>date = ''2026-02-10'', base = ''USD'', symbol = ''EUR'', rate = 0.93,
                    source = ''frankfurter'', fetched_at = ''2026-02-10T00:00:00+00:00'',
                    created_at = ''2026-02-10 00:00:00'', updated_at = ''2026-02-10 00:00:00''\<rparr>],
      ingest_runs = [finished_run, running_run], sqlite_sequence = 2\<rparr>"

text \<open>Two clocks: one that stays within a second, one that reads a later second.\<close>

definition same_second :: "nat \<Rightarrow> string" where
  "same_second i = ''2026-02-10 00:00:00''"

definition next_second :: "nat \<Rightarrow> string" where
  "next_second i = ''2026-02-10 00:00:01''"

section \<open>Facts about the storage engine\<close>

lemma pk_update [simp]:
  "pk (s\<lparr>rate := a, source := b, fetched_at := c, updated_at := u\<rparr>) = pk s"
  by (simp add: pk_def)

lemma pk_overwrite [simp]: "pk (overwrite now r s) = pk s"
  by (simp add: overwrite_def)

lemma created_overwrite [simp]: "created_at (overwrite now r s) = created_at s"
  by (simp add: overwrite_def)

lemma upsert_present: "pk r \<in> set (map pk tbl) \<Longrightarrow> upsert now r tbl = map (overwrite now r) tbl"
  by (simp add: upsert_def overwrite_def)

lemma upsert_absent:
  "pk r \<notin> set (map pk tbl) \<Longrightarrow>
     upsert now r tbl = tbl @ [\<lparr>date = date r, base = base r, symbol = symbol r, rate = rate r,
                                source = source r, fetched_at = fetched_at r,
                                created_at = now, updated_at = now\<rparr>]"
  by (simp add: upsert_def)

lemma map_pk_overwrite: "map pk (map (overwrite now r) tbl) = map pk tbl"
  by (simp add: comp_def)

lemma pk_upsert_present: "pk r \<in> set (map pk tbl) \<Longrightarrow> map pk (upsert now r tbl) = map pk tbl"
  by (simp add: upsert_present map_pk_overwrite)

lemma keys_upsert: "set (map pk (upsert now r tbl)) = insert (pk r) (set (map pk tbl))"
proof (cases "pk r \<in> set (map pk tbl)")
  case True
  then show ?thesis by (simp only: pk_upsert_present) auto
next
  case False
  then show ?thesis by (simp add: upsert_absent) (simp add: pk_def)
qed

lemma keys_executemany:
  "set (map pk (executemany clock i rows tbl)) = set (map pk rows) \<union> set (map pk tbl)"
proof (induction rows arbitrary: i tbl)
  case Nil
  show ?case by simp
next
  case (Cons r rs)
  show ?case
    unfolding executemany.simps Cons.IH keys_upsert by auto
qed

text \<open>When every key of the batch is in the table, the batch only updates rows in place.\<close>

lemma executemany_present:
  "set (map pk rows) \<subseteq> set (map pk tbl) \<Longrightarrow>
     executemany clock i rows tbl = map (overwrites clock i rows) tbl"
proof (induction rows arbitrary: i tbl)
  case Nil
  show ?case by simp
next
  case (Cons r rs)
  then have r: "pk r \<in> set (map pk tbl)" and rs: "set (map pk rs) \<subseteq> set (map pk tbl)"
    by auto
  have "map pk (upsert (clock i) r tbl) = map pk tbl" using r by (rule pk_upsert_present)
  with rs have "set (map pk rs) \<subseteq> set (map pk (upsert (clock i) r tbl))" by simp
  then have "executemany clock (Suc i) rs (upsert (clock i) r tbl)
               = map (overwrites clock (Suc i) rs) (upsert (clock i) r tbl)"
    by (rule Cons.IH)
  then show ?case by (simp add: upsert_present [OF r])
qed

lemma pk_overwrites [simp]: "pk (overwrites clock i rows s) = pk s"
  by (induction rows arbitrary: i s) simp_all

lemma created_overwrites [simp]: "created_at (overwrites clock i rows s) = created_at s"
  by (induction rows arbitrary: i s) simp_all

lemma values_overwrite:
  "(rate (overwrite now r s), source (overwrite now r s), fetched_at (overwrite now r s))
     = (if pk r = pk s then (rate r, source r, fetched_at r) else (rate s, source s, fetched_at s))"
  by (auto simp add: overwrite_def)

lemma values_overwrites:
  "(rate (overwrites clock i rows s), source (overwrites clock i rows s),
    fetched_at (overwrites clock i rows s))
     = settle rows (pk s) (rate s, source s, fetched_at s)"
proof (induction rows arbitrary: i s)
  case Nil
  show ?case by simp
next
  case (Cons r rs)
  show ?case
    unfolding overwrites.simps settle.simps Cons.IH pk_overwrite values_overwrite ..
qed

lemma settle_absent: "k \<notin> set (map pk rows) \<Longrightarrow> settle rows k v = v"
  by (induction rows arbitrary: v) auto

lemma settle_present: "k \<in> set (map pk rows) \<Longrightarrow> settle rows k v = settle rows k v'"
proof (induction rows arbitrary: v v')
  case Nil
  then show ?case by simp
next
  case (Cons r rs)
  show ?case
  proof (cases "k \<in> set (map pk rs)")
    case True
    then show ?thesis by (simp add: Cons.IH)
  next
    case False
    with Cons.prems have "pk r = k" by auto
    with False show ?thesis by (simp add: settle_absent)
  qed
qed

lemma upsert_other: "s \<in> set (upsert now r tbl) \<Longrightarrow> pk s \<noteq> pk r \<Longrightarrow> s \<in> set tbl"
proof (cases "pk r \<in> set (map pk tbl)")
  case True
  assume "s \<in> set (upsert now r tbl)" and "pk s \<noteq> pk r"
  then show ?thesis by (auto simp add: upsert_present [OF True] overwrite_def split: if_splits)
next
  case False
  assume "s \<in> set (upsert now r tbl)" and "pk s \<noteq> pk r"
  then show ?thesis by (auto simp add: upsert_absent [OF False] pk_def)
qed

lemma upsert_same:
  "s \<in> set (upsert now r tbl) \<Longrightarrow> pk s = pk r \<Longrightarrow>
     (rate s, source s, fetched_at s) = (rate r, source r, fetched_at r)"
proof (cases "pk r \<in> set (map pk tbl)")
  case True
  assume "s \<in> set (upsert now r tbl)" and "pk s = pk r"
  then show ?thesis by (auto simp add: upsert_present [OF True] overwrite_def split: if_splits)
next
  case False
  assume mem: "s \<in> set (upsert now r tbl)" and same: "pk s = pk r"
  from False same have "s \<notin> set tbl" by force
  with mem show ?thesis by (simp add: upsert_absent [OF False])
qed

lemma executemany_other:
  "s \<in> set (executemany clock i rows tbl) \<Longrightarrow> pk s \<notin> set (map pk rows) \<Longrightarrow> s \<in> set tbl"
proof (induction rows arbitrary: i tbl)
  case Nil
  then show ?case by simp
next
  case (Cons r rs)
  from Cons.prems have "s \<in> set (executemany clock (Suc i) rs (upsert (clock i) r tbl))"
    and "pk s \<notin> set (map pk rs)" and "pk s \<noteq> pk r" by auto
  then show ?case using Cons.IH upsert_other by blast
qed

text \<open>After a batch, every row already holds the values the same batch would give it.\<close>

lemma executemany_settled:
  "s \<in> set (executemany clock i rows tbl) \<Longrightarrow>
     settle rows (pk s) (rate s, source s, fetched_at s) = (rate s, source s, fetched_at s)"
proof (induction rows arbitrary: i tbl)
  case Nil
  show ?case by simp
next
  case (Cons r rs)
  from Cons.prems have mem: "s \<in> set (executemany clock (Suc i) rs (upsert (clock i) r tbl))"
    by simp
  then have ih: "settle rs (pk s) (rate s, source s, fetched_at s) = (rate s, source s, fetched_at s)"
    by (rule Cons.IH)
  show ?case
  proof (cases "pk r = pk s")
    case False
    with ih show ?thesis by simp
  next
    case True
    show ?thesis
    proof (cases "pk s \<in> set (map pk rs)")
      case True
      then have "settle rs (pk s) (rate r, source r, fetched_at r)
                   = settle rs (pk s) (rate s, source s, fetched_at s)"
        by (rule settle_present)
      with ih \<open>pk r = pk s\<close> show ?thesis by simp
    next
      case False
      with mem have "s \<in> set (upsert (clock i) r tbl)" by (rule executemany_other)
      then have "(rate s, source s, fetched_at s) = (rate r, source r, fetched_at r)"
        using \<open>pk r = pk s\<close> by (simp add: upsert_same)
      with ih \<open>pk r = pk s\<close> show ?thesis by simp
    qed
  qed
qed

lemma executemany_twice:
  "map stored (executemany clock' j rows (executemany clock i rows tbl))
     = map stored (executemany clock i rows tbl)
   \<and> map created_at (executemany clock' j rows (executemany clock i rows tbl))
     = map created_at (executemany clock i rows tbl)"
proof -
  let ?t = "executemany clock i rows tbl"
  have "set (map pk rows) \<subseteq> set (map pk ?t)" unfolding keys_executemany by blast
  then have eq: "executemany clock' j rows ?t = map (overwrites clock' j rows) ?t"
    by (rule executemany_present)
  have "stored (overwrites clock' j rows s) = stored s" if "s \<in> set ?t" for s
    using executemany_settled [OF that] values_overwrites [of clock' j rows s]
    by (simp add: stored_def)
  then show ?thesis unfolding eq by (simp cong: map_cong)
qed

lemma distinct_pk_nth:
  assumes "distinct (map pk tbl)" and "i < length tbl" and "j < length tbl" and "j \<noteq> i"
  shows "pk (tbl ! j) \<noteq> pk (tbl ! i)"
  using assms nth_eq_iff_index_eq [of "map pk tbl" j i] by simp

lemma one_row_per_key:
  "distinct (map f xs) \<Longrightarrow> k \<in> set (map f xs) \<Longrightarrow> length (filter (\<lambda>s. f s = k) xs) = 1"
proof (induction xs)
  case Nil
  then show ?case by simp
next
  case (Cons x xs)
  show ?case
  proof (cases "f x = k")
    case True
    with Cons.prems have "k \<notin> f ` set xs" by simp
    then have "\<forall>s \<in> set xs. f s \<noteq> k" by blast
    then have "filter (\<lambda>s. f s = k) xs = []" by (simp add: filter_empty_conv)
    with True show ?thesis by simp
  next
    case False
    with Cons show ?thesis by auto
  qed
qed

lemma overwrite_nth:
  assumes "distinct (map pk tbl)" and "i < length tbl" and "pk (tbl ! i) = pk r"
  shows "map (overwrite now r) tbl
           = tbl[i := (tbl ! i)\<lparr>rate := rate r, source := source r,
                                fetched_at := fetched_at r, updated_at := now\<rparr>]"
proof (rule nth_equalityI)
  show "length (map (overwrite now r) tbl)
          = length (tbl[i := (tbl ! i)\<lparr>rate := rate r, source := source r,
                                     fetched_at := fetched_at r, updated_at := now\<rparr>])"
    by simp
next
  fix j assume "j < length (map (overwrite now r) tbl)"
  then have j: "j < length tbl" by simp
  show "map (overwrite now r) tbl ! j
          = tbl[i := (tbl ! i)\<lparr>rate := rate r, source := source r,
                               fetched_at := fetched_at r, updated_at := now\<rparr>] ! j"
  proof (cases "j = i")
    case True
    with assms show ?thesis by (simp add: overwrite_def)
  next
    case False
    have "pk (tbl ! j) \<noteq> pk (tbl ! i)"
      using assms(1,2) j False by (rule distinct_pk_nth)
    then have "pk (tbl ! j) \<noteq> pk r" using assms(3) by simp
    with j False show ?thesis by (simp add: overwrite_def)
  qed
qed

lemma map_no_match: "\<forall>x \<in> set xs. \<not> P x \<Longrightarrow> map (\<lambda>x. if P x then f x else x) xs = xs"
  by (induction xs) auto

lemma finish_ingest_run_overflow:
  "\<not> (in_sqlite_range n \<and> in_sqlite_range run_id) \<Longrightarrow>
     finish_ingest_run now run_id new_status n err d
       = (Inl (OverflowError ''Python int too large to convert to SQLite INTEGER''), d)"
  by (simp add: finish_ingest_run_def)

section \<open>Facts about the client and the normalizer\<close>

lemma sort_items_unique:
  fixes ps qs :: "(string \<times> 'v) list"
  assumes dp: "distinct (map fst ps)" and dq: "distinct (map fst qs)" and eq: "set ps = set qs"
  shows "sort_key fst ps = sort_key fst qs"
proof (rule map_sorted_distinct_set_unique [where f = fst])
  have "inj_on fst (set ps)" using dp by (simp add: distinct_map)
  then show "inj_on fst (set (sort_key fst ps) \<union> set (sort_key fst qs))"
    using eq by simp
  show "sorted (map fst (sort_key fst ps))" by simp
  show "sorted (map fst (sort_key fst qs))" by simp
  show "distinct (map fst (sort_key fst ps))" using dp by (simp add: distinct_map)
  show "distinct (map fst (sort_key fst qs))" using dq by (simp add: distinct_map)
  show "set (sort_key fst ps) = set (sort_key fst qs)" using eq by simp
qed

lemma sort_key_idem: "sort_key f (sort_key f xs) = sort_key f xs"
  by (simp add: sort_key_id_if_sorted)

lemma new_events_emit1 [simp]: "new_events w (emit a w) = [a]"
  by (simp add: new_events_def emit_def)

lemma new_events_emit2 [simp]: "new_events w (emit a (emit b w)) = [b, a]"
  by (simp add: new_events_def emit_def)

lemma new_events_emit3 [simp]:
  "new_events w (emit a (emit b (emit c w)\<lparr>files := fs\<rparr>)) = [c, b, a]"
  by (simp add: new_events_def emit_def)

lemma new_events_emit2' [simp]: "new_events w (emit a (emit b w\<lparr>files := fs\<rparr>)) = [b, a]"
  by (simp add: new_events_def emit_def)

lemma files_emit [simp]: "files (emit a w) = files w"
  by (simp add: emit_def)

lemma get_json_invalid:
  assumes "use_cache c \<longrightarrow> files w (cache_file lib c endpoint params) = None"
      and "net (base_url c @ endpoint) params (timeout_seconds c) = Inr resp"
      and "raise_for_status resp = Inr ()"
      and "json_body resp = Inr payload"
      and "validate_payload payload = Inl e"
  shows "get_json lib net c endpoint params w =
           (Inl e, emit (HttpGet (base_url c @ endpoint) params (timeout_seconds c))
                     (if use_cache c then emit (PathExists (cache_file lib c endpoint params)) w
                      else w))"
  using assms by (auto simp add: get_json_def Let_def)

lemma get_json_writes:
  assumes "WriteText f text \<in> set (new_events w (snd (get_json lib net c endpoint params w)))"
  shows "\<exists>payload. validate_payload payload = Inr ()
           \<and> fst (get_json lib net c endpoint params w) = Inr payload
           \<and> f = cache_file lib c endpoint params
           \<and> text = dumps (float_json lib) False payload
           \<and> files (snd (get_json lib net c endpoint params w)) = (files w)(f \<mapsto> text)"
  using assms
  by (auto simp add: get_json_def Let_def split: if_splits sum.splits option.splits)

lemma get_json_files:
  assumes "files (snd (get_json lib net c endpoint params w)) \<noteq> files w"
  shows "\<exists>f text. WriteText f text
            \<in> set (new_events w (snd (get_json lib net c endpoint params w)))"
  using assms
  by (auto simp add: get_json_def Let_def split: if_splits sum.splits option.splits)

lemma validate_payload_invalid:
  assumes "\<nexists>rates. dict_get payload ''rates'' = Some (JDict rates)"
  shows "\<exists>msg. validate_payload payload = Inl (ValueError msg)"
proof (cases payload)
  case (JDict kvs)
  show ?thesis
  proof (cases "map_of kvs ''rates''")
    case None
    with JDict show ?thesis by (simp add: validate_payload_def)
  next
    case (Some v)
    with JDict assms show ?thesis by (cases v) (simp_all add: validate_payload_def)
  qed
qed (simp_all add: validate_payload_def)

lemma normalize_payload_invalid:
  "validate_payload payload = Inl e \<Longrightarrow>
     normalize_payload lib now payload base_arg src fetched_at_arg = Inl e"
  by (simp add: normalize_payload_def)

lemma clean_symbols_blank:
  "\<forall>s \<in> set symbols. strip s = [] \<Longrightarrow>
     clean_symbols symbols = Inl (ValueError ''Informe ao menos um symbol.'')"
  by (simp add: clean_symbols_def filter_empty_conv)

lemma clean_symbols_nonblank:
  "\<exists>s \<in> set symbols. strip s \<noteq> [] \<Longrightarrow>
     clean_symbols symbols
       = Inr (map (\<lambda>s. upper (strip s)) (filter (\<lambda>s. strip s \<noteq> []) symbols))"
  by (auto simp add: clean_symbols_def filter_empty_conv)

lemma upper_codes: "upper ''USD'' = ''USD''" "upper ''BRL'' = ''BRL''" "upper ''EUR'' = ''EUR''"
  by (simp_all add: upper_def upper_char_def)

section \<open>The claims\<close>

subsection \<open>C1: upserting the same rows twice\<close>

text \<open>
  C1. For every list of rate rows, every state of the store and every reading of the clock
  during the two batches, \<open>upsert_rates\<close> applied a second time with the same rows leaves
  the rows of \<open>fx_rates\<close> as the first application left them: the same keys in the same
  order, and under every key the same rate, source and fetched_at (and the same
  created_at). Both calls return the length of the list. Only \<open>updated_at\<close> may differ.
\<close>

theorem upsert_rates_idempotent:
  "fst (upsert_rates clock rows d) = int (length rows)
   \<and> fst (upsert_rates clock' rows (snd (upsert_rates clock rows d))) = int (length rows)
   \<and> map stored (fx_rates (snd (upsert_rates clock' rows (snd (upsert_rates clock rows d)))))
       = map stored (fx_rates (snd (upsert_rates clock rows d)))
   \<and> map created_at (fx_rates (snd (upsert_rates clock' rows (snd (upsert_rates clock rows d)))))
       = map created_at (fx_rates (snd (upsert_rates clock rows d)))"
  by (simp add: upsert_rates_def executemany_twice)

text \<open>
  On a batch that names the key of BRL twice: the later row wins, both times, and both
  calls return 3.
\<close>

theorem upsert_rates_idempotent_witness:
  "fst (upsert_rates same_second [brl_row 5.12, eur_row 0.93, brl_row 5.22] empty_db) = 3
   \<and> fst (upsert_rates next_second [brl_row 5.12, eur_row 0.93, brl_row 5.22]
            (snd (upsert_rates same_second [brl_row 5.12, eur_row 0.93, brl_row 5.22] empty_db))) = 3
   \<and> map stored (fx_rates (snd (upsert_rates next_second [brl_row 5.12, eur_row 0.93, brl_row 5.22]
            (snd (upsert_rates same_second [brl_row 5.12, eur_row 0.93, brl_row 5.22] empty_db)))))
       = [((''2026-02-10'', ''USD'', ''BRL''), 5.22, ''frankfurter'', ''2026-02-10T00:00:00+00:00''),
          ((''2026-02-10'', ''USD'', ''EUR''), 0.93, ''frankfurter'', ''2026-02-10T00:00:00+00:00'')]"
proof -
  have once: "map stored (fx_rates (snd (upsert_rates same_second
                 [brl_row 5.12, eur_row 0.93, brl_row 5.22] empty_db)))
       = [((''2026-02-10'', ''USD'', ''BRL''), 5.22, ''frankfurter'', ''2026-02-10T00:00:00+00:00''),
          ((''2026-02-10'', ''USD'', ''EUR''), 0.93, ''frankfurter'', ''2026-02-10T00:00:00+00:00'')]"
    by (simp add: upsert_rates_def upsert_def brl_row_def eur_row_def empty_db_def stored_def pk_def)
  show ?thesis
    using upsert_rates_idempotent [of same_second "[brl_row 5.12, eur_row 0.93, brl_row 5.22]"
        empty_db next_second] once
    by simp
qed

subsection \<open>C2: the cache key does not depend on the order of the parameters\<close>

text \<open>
  C2. For every endpoint and every two parameter dicts with the same key-value pairs
  (two association lists with distinct keys and the same set of items, in whatever
  order), \<open>_cache_key\<close> returns the same fingerprint; and the fingerprint is the SHA-256
  hex digest of the serialization in which the parameters are sorted by name.
\<close>

theorem cache_key_order:
  assumes "distinct (map fst ps)" and "distinct (map fst qs)" and "set ps = set qs"
  shows "cache_key lib endpoint ps = cache_key lib endpoint qs
       \<and> cache_key lib endpoint ps
           = sha256_hexdigest lib
               (dumps (float_json lib) True
                  (JDict [(''endpoint'', JStr endpoint), (''params'', JDict (sort_key fst ps))]))"
proof -
  have "sort_key fst ps = sort_key fst qs" using assms by (rule sort_items_unique)
  then show ?thesis
    by (simp add: cache_key_def Let_def sort_key_idem)
qed

theorem cache_key_order_witness:
  "distinct (map fst (latest_params (JStr ''BRL,EUR'')))
   \<and> distinct (map fst (rev (latest_params (JStr ''BRL,EUR''))))
   \<and> set (latest_params (JStr ''BRL,EUR'')) = set (rev (latest_params (JStr ''BRL,EUR'')))
   \<and> latest_params (JStr ''BRL,EUR'') \<noteq> rev (latest_params (JStr ''BRL,EUR''))
   \<and> cache_key example_lib ''/v1/latest'' (latest_params (JStr ''BRL,EUR''))
       = cache_key example_lib ''/v1/latest'' (rev (latest_params (JStr ''BRL,EUR'')))"
proof -
  have h1: "distinct (map fst (latest_params (JStr ''BRL,EUR'')))"
    by (simp add: latest_params_def)
  have h2: "distinct (map fst (rev (latest_params (JStr ''BRL,EUR''))))"
    by (simp add: latest_params_def)
  have h3: "set (latest_params (JStr ''BRL,EUR'')) = set (rev (latest_params (JStr ''BRL,EUR'')))"
    by simp
  have h4: "latest_params (JStr ''BRL,EUR'') \<noteq> rev (latest_params (JStr ''BRL,EUR''))"
    by (simp add: latest_params_def)
  show ?thesis
    using cache_key_order [OF h1 h2 h3, of example_lib "''/v1/latest''"] h1 h2 h3 h4
    by simp
qed

subsection \<open>C3: upserting a row whose key is stored\<close>

text \<open>
  C3 as stated does not hold: \<open>updated_at\<close> is set to what \<open>CURRENT_TIMESTAMP\<close> reads,
  which has a resolution of one second, so two upserts within a second leave it as it
  was. Here the row of BRL is inserted with rate 5.12 and upserted with rate 5.22 while
  the clock reads the same second, as in the smoke test: the rate is replaced and
  \<open>updated_at\<close> has not advanced.
\<close>

theorem upsert_overwrite_counterexample:
  "fx_rates (snd (upsert_rates same_second [brl_row 5.12] empty_db))
     = [\<lparr>date = ''2026-02-10'', base = ''USD'', symbol = ''BRL'', rate = 5.12,
         source = ''frankfurter'', fetched_at = ''2026-02-10T00:00:00+00:00'',
         created_at = ''2026-02-10 00:00:00'', updated_at = ''2026-02-10 00:00:00''\<rparr>]
   \<and> fx_rates (snd (upsert_rates same_second [brl_row 5.22]
                     (snd (upsert_rates same_second [brl_row 5.12] empty_db))))
     = [\<lparr>date = ''2026-02-10'', base = ''USD'', symbol = ''BRL'', rate = 5.22,
         source = ''frankfurter'', fetched_at = ''2026-02-10T00:00:00+00:00'',
         created_at = ''2026-02-10 00:00:00'', updated_at = ''2026-02-10 00:00:00''\<rparr>]
   \<and> \<not> (updated_at (hd (fx_rates (snd (upsert_rates same_second [brl_row 5.12] empty_db))))
          < updated_at (hd (fx_rates (snd (upsert_rates same_second [brl_row 5.22]
                     (snd (upsert_rates same_second [brl_row 5.12] empty_db)))))))"
  by (simp add: upsert_rates_def upsert_def brl_row_def empty_db_def same_second_def pk_def)

text \<open>
  C3, amended. In a table that respects its primary key, upserting a row \<open>r\<close> whose key
  is the key of the stored row number \<open>i\<close> replaces that row's rate, source and
  fetched_at by those of \<open>r\<close> and sets its \<open>updated_at\<close> to what the clock reads during
  the statement: it advances exactly when the clock reads later than the stored value.
  The row's \<open>created_at\<close> and every other row are unchanged, the keys of the table are
  the same list as before, exactly one row has the key of \<open>r\<close>, and \<open>ingest_runs\<close> is
  unchanged.
\<close>

theorem upsert_overwrite:
  assumes "distinct (map pk (fx_rates d))"
      and "i < length (fx_rates d)"
      and "pk (fx_rates d ! i) = pk r"
  shows "fx_rates (snd (upsert_rates clock [r] d))
           = (fx_rates d)[i := (fx_rates d ! i)\<lparr>rate := rate r, source := source r,
                                  fetched_at := fetched_at r, updated_at := clock 0\<rparr>]
       \<and> created_at (fx_rates (snd (upsert_rates clock [r] d)) ! i) = created_at (fx_rates d ! i)
       \<and> updated_at (fx_rates (snd (upsert_rates clock [r] d)) ! i) = clock 0
       \<and> (updated_at (fx_rates d ! i) < updated_at (fx_rates (snd (upsert_rates clock [r] d)) ! i))
           = (updated_at (fx_rates d ! i) < clock 0)
       \<and> (\<forall>j < length (fx_rates d). j \<noteq> i \<longrightarrow>
             fx_rates (snd (upsert_rates clock [r] d)) ! j = fx_rates d ! j)
       \<and> map pk (fx_rates (snd (upsert_rates clock [r] d))) = map pk (fx_rates d)
       \<and> length (filter (\<lambda>s. pk s = pk r) (fx_rates (snd (upsert_rates clock [r] d)))) = 1
       \<and> ingest_runs (snd (upsert_rates clock [r] d)) = ingest_runs d"
proof -
  let ?new = "(fx_rates d ! i)\<lparr>rate := rate r, source := source r,
                                  fetched_at := fetched_at r, updated_at := clock 0\<rparr>"
  have present: "pk r \<in> set (map pk (fx_rates d))"
    using assms(2,3) by (metis length_map nth_map nth_mem)
  have tbl: "fx_rates (snd (upsert_rates clock [r] d)) = (fx_rates d)[i := ?new]"
    using overwrite_nth [OF assms, of "clock 0"]
    by (simp add: upsert_rates_def upsert_present [OF present])
  have keys: "map pk ((fx_rates d)[i := ?new]) = map pk (fx_rates d)"
    using assms(2) by (simp add: map_update list_update_same_conv)
  have "distinct (map pk ((fx_rates d)[i := ?new]))" using keys assms(1) by simp
  moreover have "pk r \<in> set (map pk ((fx_rates d)[i := ?new]))" using keys present by simp
  ultimately have one: "length (filter (\<lambda>s. pk s = pk r) ((fx_rates d)[i := ?new])) = 1"
    by (rule one_row_per_key)
  show ?thesis
    unfolding tbl using assms(2) keys one by (simp add: upsert_rates_def)
qed

text \<open>
  On the example store, whose rows were written at second 00: the row of BRL upserted
  at second 01 with rate 5.22, the row of EUR untouched.
\<close>

theorem upsert_overwrite_witness:
  "distinct (map pk (fx_rates example_db))
   \<and> 0 < length (fx_rates example_db)
   \<and> pk (fx_rates example_db ! 0) = pk (brl_row (5.22 :: real))
   \<and> rate (fx_rates example_db ! 0) \<noteq> rate (brl_row (5.22 :: real))
   \<and> fx_rates (snd (upsert_rates next_second [brl_row 5.22] example_db))
       = [\<lparr>date = ''2026-02-10'', base = ''USD'', symbol = ''BRL'', rate = 5.22,
           source = ''frankfurter'', fetched_at = ''2026-02-10T00:00:00+00:00'',
           created_at = ''2026-02-10 00:00:00'', updated_at = ''2026-02-10 00:00:01''\<rparr>,
          \<lparr>date = ''2026-02-10'', base = ''USD'', symbol = ''EUR'', rate = 0.93,
           source = ''frankfurter'', fetched_at = ''2026-02-10T00:00:00+00:00'',
           created_at = ''2026-02-10 00:00:00'', updated_at = ''2026-02-10 00:00:00''\<rparr>]
   \<and> length (filter (\<lambda>s. pk s = pk (brl_row (5.22 :: real)))
               (fx_rates (snd (upsert_rates next_second [brl_row 5.22] example_db)))) = 1"
proof -
  have h1: "distinct (map pk (fx_rates example_db))"
    by (simp add: example_db_def pk_def)
  have h2: "0 < length (fx_rates example_db)"
    by (simp add: example_db_def)
  have h3: "pk (fx_rates example_db ! 0) = pk (brl_row (5.22 :: real))"
    by (simp add: example_db_def brl_row_def pk_def)
  have h4: "rate (fx_rates example_db ! 0) \<noteq> rate (brl_row (5.22 :: real))"
    by (simp add: example_db_def brl_row_def)
  note fact = upsert_overwrite [OF h1 h2 h3, of next_second]
  from fact have tbl: "fx_rates (snd (upsert_rates next_second [brl_row 5.22] example_db))
      = (fx_rates example_db)[0 := (fx_rates example_db ! 0)\<lparr>rate := rate (brl_row (5.22 :: real)),
           source := source (brl_row (5.22 :: real)),
           fetched_at := fetched_at (brl_row (5.22 :: real)), updated_at := next_second 0\<rparr>]"
    by (rule conjunct1)
  from fact have one: "length (filter (\<lambda>s. pk s = pk (brl_row (5.22 :: real)))
               (fx_rates (snd (upsert_rates next_second [brl_row 5.22] example_db)))) = 1"
    by blast
  have "(fx_rates example_db)[0 := (fx_rates example_db ! 0)\<lparr>rate := rate (brl_row (5.22 :: real)),
           source := source (brl_row (5.22 :: real)),
           fetched_at := fetched_at (brl_row (5.22 :: real)), updated_at := next_second 0\<rparr>]
       = [\<lparr>date = ''2026-02-10'', base = ''USD'', symbol = ''BRL'', rate = 5.22,
           source = ''frankfurter'', fetched_at = ''2026-02-10T00:00:00+00:00'',
           created_at = ''2026-02-10 00:00:00'', updated_at = ''2026-02-10 00:00:01''\<rparr>,
          \<lparr>date = ''2026-02-10'', base = ''USD'', symbol = ''EUR'', rate = 0.93,
           source = ''frankfurter'', fetched_at = ''2026-02-10T00:00:00+00:00'',
           created_at = ''2026-02-10 00:00:00'', updated_at = ''2026-02-10 00:00:00''\<rparr>]"
    by (simp add: example_db_def brl_row_def next_second_def)
  with tbl have "fx_rates (snd (upsert_rates next_second [brl_row 5.22] example_db))
       = [\<lparr>date = ''2026-02-10'', base = ''USD'', symbol = ''BRL'', rate = 5.22,
           source = ''frankfurter'', fetched_at = ''2026-02-10T00:00:00+00:00'',
           created_at = ''2026-02-10 00:00:00'', updated_at = ''2026-02-10 00:00:01''\<rparr>,
          \<lparr>date = ''2026-02-10'', base = ''USD'', symbol = ''EUR'', rate = 0.93,
           source = ''frankfurter'', fetched_at = ''2026-02-10T00:00:00+00:00'',
           created_at = ''2026-02-10 00:00:00'', updated_at = ''2026-02-10 00:00:00''\<rparr>]"
    by (rule trans)
  with h1 h2 h3 h4 one show ?thesis by blast
qed

subsection \<open>C4: finishing a run that is already finished\<close>

text \<open>
  C4 as stated does not hold: \<open>finish_ingest_run\<close> has no test of the current status.
  Run 1 of the example store has status OK; finishing it again with FAIL returns
  without an exception and overwrites its status, finished_at, rows_inserted and
  error_message.
\<close>

theorem finish_terminal_counterexample:
  "status (ingest_runs example_db ! 0) = ''OK''
   \<and> rid (ingest_runs example_db ! 0) = 1
   \<and> fst (finish_ingest_run ''2026-02-10T00:01:00+00:00'' 1 ''FAIL'' 0 (Some ''boom'') example_db)
       = Inr ()
   \<and> ingest_runs (snd (finish_ingest_run ''2026-02-10T00:01:00+00:00'' 1 ''FAIL'' 0 (Some ''boom'')
                          example_db)) ! 0
       = \<lparr>rid = 1, command = ''daily'', args = Some ''{}'', status = ''FAIL'',
          started_at = ''2026-02-10T00:00:00+00:00'',
          finished_at = Some ''2026-02-10T00:01:00+00:00'',
          rows_inserted = 0, error_message = Some ''boom''\<rparr>
   \<and> ingest_runs (snd (finish_ingest_run ''2026-02-10T00:01:00+00:00'' 1 ''FAIL'' 0 (Some ''boom'')
                          example_db)) ! 0
       \<noteq> ingest_runs example_db ! 0"
  by (simp add: finish_ingest_run_def in_sqlite_range_def example_db_def finished_run_def
      running_run_def)

text \<open>
  C4, amended. With a run id and a row count inside SQLite's signed 64-bit range,
  \<open>finish_ingest_run\<close> is performed whatever the status of the run is, terminal or
  not: it returns without an exception, the run with the given id gets the new status,
  finished_at, rows_inserted and error_message in place of the stored ones, and keeps
  its id, command, args and started_at; the other runs and \<open>fx_rates\<close> are unchanged.
  The code has no transition relation: it admits a step out of OK and out of FAIL.
\<close>

theorem finish_overwrites:
  assumes "i < length (ingest_runs d)" and "rid (ingest_runs d ! i) = run_id"
      and "in_sqlite_range run_id" and "in_sqlite_range n"
  shows "fst (finish_ingest_run now run_id new_status n err d) = Inr ()
    \<and> length (ingest_runs (snd (finish_ingest_run now run_id new_status n err d)))
        = length (ingest_runs d)
    \<and> ingest_runs (snd (finish_ingest_run now run_id new_status n err d)) ! i
       = (ingest_runs d ! i)\<lparr>status := new_status, finished_at := Some now,
                               rows_inserted := n, error_message := err\<rparr>
    \<and> (\<forall>j < length (ingest_runs d). rid (ingest_runs d ! j) \<noteq> run_id \<longrightarrow>
          ingest_runs (snd (finish_ingest_run now run_id new_status n err d)) ! j
            = ingest_runs d ! j)
    \<and> fx_rates (snd (finish_ingest_run now run_id new_status n err d)) = fx_rates d"
  using assms by (simp add: finish_ingest_run_def)

theorem finish_overwrites_witness:
  "0 < length (ingest_runs example_db)
   \<and> rid (ingest_runs example_db ! 0) = 1
   \<and> in_sqlite_range 1
   \<and> in_sqlite_range 0
   \<and> status (ingest_runs example_db ! 0) = ''OK''
   \<and> fst (finish_ingest_run ''2026-02-10T00:01:00+00:00'' 1 ''FAIL'' 0 (Some ''boom'') example_db)
       = Inr ()
   \<and> ingest_runs (snd (finish_ingest_run ''2026-02-10T00:01:00+00:00'' 1 ''FAIL'' 0 (Some ''boom'')
                          example_db)) ! 0
       = (ingest_runs example_db ! 0)\<lparr>status := ''FAIL'',
            finished_at := Some ''2026-02-10T00:01:00+00:00'',
            rows_inserted := 0, error_message := Some ''boom''\<rparr>
   \<and> ingest_runs (snd (finish_ingest_run ''2026-02-10T00:01:00+00:00'' 1 ''FAIL'' 0 (Some ''boom'')
                          example_db)) ! 1
       = ingest_runs example_db ! 1"
proof -
  have h1: "0 < length (ingest_runs example_db)" by (simp add: example_db_def)
  have h2: "rid (ingest_runs example_db ! 0) = 1"
    by (simp add: example_db_def finished_run_def)
  have r1: "in_sqlite_range 1" by (simp add: in_sqlite_range_def)
  have r0: "in_sqlite_range 0" by (simp add: in_sqlite_range_def)
  have h3: "status (ingest_runs example_db ! 0) = ''OK''"
    by (simp add: example_db_def finished_run_def)
  have h4: "1 < length (ingest_runs example_db)" by (simp add: example_db_def)
  have h5: "rid (ingest_runs example_db ! 1) \<noteq> 1"
    by (simp add: example_db_def running_run_def)
  note fact = finish_overwrites [OF h1 h2 r1 r0, of "''2026-02-10T00:01:00+00:00''" "''FAIL''"
      "Some ''boom''"]
  from fact h4 h5 have "ingest_runs (snd (finish_ingest_run ''2026-02-10T00:01:00+00:00'' 1
      ''FAIL'' 0 (Some ''boom'') example_db)) ! 1 = ingest_runs example_db ! 1"
    by blast
  with fact h1 h2 h3 r1 r0 show ?thesis by blast
qed

subsection \<open>C5: only a validated payload is cached\<close>

text \<open>
  C5. A fetch writes to the cache only after the validator has accepted the payload.
  Every file that \<open>_get_json\<close> writes is the cache file of the query and holds the
  serialization of the payload it returns, and that payload is valid; the files change
  in no other way. When a response is fetched (the cache is off or has no entry for the
  query) and its parsed body has no \<open>rates\<close> field that is a dict, the fetch fails with
  the validator's error, the files are as before, no write is among its effects, and
  \<open>normalize_payload\<close> fails on that body with the same error, so there are no rows.
\<close>

theorem validated_before_cache:
  "(\<forall>f text. WriteText f text \<in> set (new_events w (snd (get_json lib net c endpoint params w))) \<longrightarrow>
       (\<exists>payload. validate_payload payload = Inr ()
           \<and> fst (get_json lib net c endpoint params w) = Inr payload
           \<and> f = cache_file lib c endpoint params
           \<and> text = dumps (float_json lib) False payload
           \<and> files (snd (get_json lib net c endpoint params w)) = (files w)(f \<mapsto> text)))
   \<and> (files (snd (get_json lib net c endpoint params w)) \<noteq> files w \<longrightarrow>
       (\<exists>f text. WriteText f text \<in> set (new_events w (snd (get_json lib net c endpoint params w)))))
   \<and> ((use_cache c \<longrightarrow> files w (cache_file lib c endpoint params) = None) \<longrightarrow>
       net (base_url c @ endpoint) params (timeout_seconds c) = Inr resp \<longrightarrow>
       raise_for_status resp = Inr () \<longrightarrow>
       json_body resp = Inr body \<longrightarrow>
       (\<nexists>rates. dict_get body ''rates'' = Some (JDict rates)) \<longrightarrow>
         (\<exists>msg. validate_payload body = Inl (ValueError msg)
             \<and> fst (get_json lib net c endpoint params w) = Inl (ValueError msg)
             \<and> normalize_payload lib now body base_arg src fetched_at_arg = Inl (ValueError msg))
         \<and> files (snd (get_json lib net c endpoint params w)) = files w
         \<and> (\<forall>f text. WriteText f text \<notin> set (new_events w (snd (get_json lib net c endpoint params w)))))"
proof (intro conjI allI impI)
  fix f t
  assume "WriteText f t \<in> set (new_events w (snd (get_json lib net c endpoint params w)))"
  then show "\<exists>payload. validate_payload payload = Inr ()
           \<and> fst (get_json lib net c endpoint params w) = Inr payload
           \<and> f = cache_file lib c endpoint params
           \<and> t = dumps (float_json lib) False payload
           \<and> files (snd (get_json lib net c endpoint params w)) = (files w)(f \<mapsto> t)"
    by (rule get_json_writes)
next
  assume "files (snd (get_json lib net c endpoint params w)) \<noteq> files w"
  then show "\<exists>f text. WriteText f text \<in> set (new_events w (snd (get_json lib net c endpoint params w)))"
    by (rule get_json_files)
next
  assume miss: "use_cache c \<longrightarrow> files w (cache_file lib c endpoint params) = None"
     and resp: "net (base_url c @ endpoint) params (timeout_seconds c) = Inr resp"
     and ok: "raise_for_status resp = Inr ()"
     and body: "json_body resp = Inr body"
     and bad: "\<nexists>rates. dict_get body ''rates'' = Some (JDict rates)"
  from bad obtain msg where msg: "validate_payload body = Inl (ValueError msg)"
    using validate_payload_invalid by blast
  have out: "get_json lib net c endpoint params w =
           (Inl (ValueError msg),
            emit (HttpGet (base_url c @ endpoint) params (timeout_seconds c))
              (if use_cache c then emit (PathExists (cache_file lib c endpoint params)) w
               else w))"
    using miss resp ok body msg by (rule get_json_invalid)
  show "\<exists>msg. validate_payload body = Inl (ValueError msg)
             \<and> fst (get_json lib net c endpoint params w) = Inl (ValueError msg)
             \<and> normalize_payload lib now body base_arg src fetched_at_arg = Inl (ValueError msg)"
    using msg out normalize_payload_invalid [OF msg] by auto
  show "files (snd (get_json lib net c endpoint params w)) = files w"
    unfolding out by simp
  show "\<And>f t. WriteText f t \<notin> set (new_events w (snd (get_json lib net c endpoint params w)))"
    unfolding out by simp
qed

text \<open>
  On the example client with an empty cache: a body without \<open>rates\<close> makes the fetch
  fail with the validator's message and leaves the files as they were; the snapshot
  payload is valid and is the one written.
\<close>

theorem validated_before_cache_witness:
  "files empty_world (cache_file example_lib example_client ''/v1/latest''
                        (latest_params (JStr ''BRL,EUR''))) = None
   \<and> dict_get no_rates_payload ''rates'' = None
   \<and> fst (get_json example_lib (answer no_rates_payload) example_client ''/v1/latest''
            (latest_params (JStr ''BRL,EUR'')) empty_world)
       = Inl (ValueError ''Resposta da API invalida: campo rates ausente.'')
   \<and> files (snd (get_json example_lib (answer no_rates_payload) example_client ''/v1/latest''
            (latest_params (JStr ''BRL,EUR'')) empty_world)) = files empty_world
   \<and> WriteText (cache_file example_lib example_client ''/v1/latest'' (latest_params (JStr ''BRL,EUR'')))
                (dumps (float_json example_lib) False (snapshot_payload 5.12 0.93))
       \<in> set (new_events empty_world
                 (snd (get_json example_lib (answer (snapshot_payload 5.12 0.93)) example_client
                         ''/v1/latest'' (latest_params (JStr ''BRL,EUR'')) empty_world)))
   \<and> (\<exists>payload. validate_payload payload = Inr ()
         \<and> fst (get_json example_lib (answer (snapshot_payload 5.12 0.93)) example_client
                  ''/v1/latest'' (latest_params (JStr ''BRL,EUR'')) empty_world) = Inr payload)"
proof -
  let ?ps = "latest_params (JStr ''BRL,EUR'')"
  let ?resp = "\<lparr>status_code = 200, json_body = Inr no_rates_payload\<rparr> :: real response"
  have h1: "use_cache example_client \<longrightarrow>
      files empty_world (cache_file example_lib example_client ''/v1/latest'' ?ps) = None"
    by (simp add: empty_world_def)
  have h2: "answer no_rates_payload (base_url example_client @ ''/v1/latest'') ?ps
              (timeout_seconds example_client) = Inr ?resp"
    by (simp add: answer_def)
  have h3: "raise_for_status ?resp = Inr ()"
    by (simp add: raise_for_status_def)
  have h4: "json_body ?resp = Inr no_rates_payload"
    by simp
  have h5: "\<nexists>rates. dict_get no_rates_payload ''rates'' = Some (JDict rates)"
    by (simp add: no_rates_payload_def)
  have v: "validate_payload no_rates_payload
             = Inl (ValueError ''Resposta da API invalida: campo rates ausente.'')"
    by (simp add: validate_payload_def no_rates_payload_def)
  note bad = validated_before_cache [where w = empty_world and lib = example_lib
      and net = "answer no_rates_payload" and c = example_client and endpoint = "''/v1/latest''"
      and params = ?ps and resp = ?resp and body = no_rates_payload
      and now = "''2026-02-10T00:00:00+00:00''" and base_arg = "Some ''USD''"
      and src = "''frankfurter''" and fetched_at_arg = None]
  from bad h1 h2 h3 h4 h5 obtain msg where
        m1: "validate_payload no_rates_payload = Inl (ValueError msg)"
    and m2: "fst (get_json example_lib (answer no_rates_payload) example_client ''/v1/latest''
                    ?ps empty_world) = Inl (ValueError msg)"
    by blast
  from bad h1 h2 h3 h4 h5 have same:
    "files (snd (get_json example_lib (answer no_rates_payload) example_client ''/v1/latest''
                    ?ps empty_world)) = files empty_world"
    by blast
  from m1 v have "msg = ''Resposta da API invalida: campo rates ausente.''" by simp
  with m2 have failed: "fst (get_json example_lib (answer no_rates_payload) example_client
      ''/v1/latest'' ?ps empty_world)
        = Inl (ValueError ''Resposta da API invalida: campo rates ausente.'')"
    by simp
  have written: "WriteText (cache_file example_lib example_client ''/v1/latest'' ?ps)
                (dumps (float_json example_lib) False (snapshot_payload 5.12 0.93))
       \<in> set (new_events empty_world
                 (snd (get_json example_lib (answer (snapshot_payload 5.12 0.93)) example_client
                         ''/v1/latest'' ?ps empty_world)))"
    by (simp add: get_json_def Let_def example_client_def empty_world_def answer_def
        raise_for_status_def validate_payload_def snapshot_payload_def)
  note good = validated_before_cache [where w = empty_world and lib = example_lib
      and net = "answer (snapshot_payload 5.12 0.93)" and c = example_client
      and endpoint = "''/v1/latest''" and params = ?ps]
  from good written have valid: "\<exists>payload. validate_payload payload = Inr ()
         \<and> fst (get_json example_lib (answer (snapshot_payload 5.12 0.93)) example_client
                  ''/v1/latest'' ?ps empty_world) = Inr payload"
    by blast
  have h0: "files empty_world (cache_file example_lib example_client ''/v1/latest'' ?ps) = None"
    by (simp add: empty_world_def)
  have h6: "dict_get no_rates_payload ''rates'' = None"
    by (simp add: no_rates_payload_def)
  from h0 h6 failed same written valid show ?thesis by blast
qed

subsection \<open>C6: the snapshot case\<close>

text \<open>
  The snapshot payload with base override USD, for every \<open>fetched_at\<close> argument. The
  source takes \<open>fetched_at or datetime.now(...)\<close>: an absent \<open>fetched_at\<close> and the empty
  string, which is no timestamp, both give the rows the current time.
\<close>

lemma normalize_snapshot_payload:
  "normalize_payload lib now (snapshot_payload x y) (Some ''USD'') src fetched_at_arg
   = Inr [\<lparr>date = ''2026-02-10'', base = ''USD'', symbol = ''BRL'', rate = x, source = src,
            fetched_at = (case fetched_at_arg of
                            None \<Rightarrow> now
                          | Some t \<Rightarrow> if t \<noteq> [] then t else now)\<rparr>,
          \<lparr>date = ''2026-02-10'', base = ''USD'', symbol = ''EUR'', rate = y, source = src,
            fetched_at = (case fetched_at_arg of
                            None \<Rightarrow> now
                          | Some t \<Rightarrow> if t \<noteq> [] then t else now)\<rparr>]"
  by (simp add: normalize_payload_def validate_payload_def base_value_of_def
      snapshot_payload_def upper_codes Let_def)

text \<open>
  C6. Normalizing the snapshot payload
  \<open>{date: "2026-02-10", base: "USD", rates: {"BRL": x, "EUR": y}}\<close>, where \<open>x\<close> and
  \<open>y\<close> are the floats that 5.12 and 0.93 parse to, with base override "USD", any
  source and a supplied \<open>fetched_at\<close> (a timestamp: a string that is not empty)
  produces exactly two rows, BRL then EUR, each with the payload's date, the base USD,
  the uppercased symbol, the rate as it is, and the caller's source and \<open>fetched_at\<close>
  verbatim, whatever the clock reads.
\<close>

theorem snapshot_case:
  assumes "ts \<noteq> []"
  shows "normalize_payload lib now (snapshot_payload x y) (Some ''USD'') src (Some ts)
   = Inr [\<lparr>date = ''2026-02-10'', base = ''USD'', symbol = ''BRL'', rate = x, source = src,
            fetched_at = ts\<rparr>,
          \<lparr>date = ''2026-02-10'', base = ''USD'', symbol = ''EUR'', rate = y, source = src,
            fetched_at = ts\<rparr>]"
  using assms by (simp add: normalize_snapshot_payload)

theorem snapshot_case_witness:
  "''2026-02-10T00:00:00Z'' \<noteq> []
   \<and> normalize_payload example_lib ''2026-11-04T12:00:00+00:00'' (snapshot_payload 5.12 0.93)
      (Some ''USD'') ''frankfurter'' (Some ''2026-02-10T00:00:00Z'')
   = Inr [\<lparr>date = ''2026-02-10'', base = ''USD'', symbol = ''BRL'', rate = 5.12,
            source = ''frankfurter'', fetched_at = ''2026-02-10T00:00:00Z''\<rparr>,
          \<lparr>date = ''2026-02-10'', base = ''USD'', symbol = ''EUR'', rate = 0.93,
            source = ''frankfurter'', fetched_at = ''2026-02-10T00:00:00Z''\<rparr>]"
proof -
  have h: "''2026-02-10T00:00:00Z'' \<noteq> []" by simp
  from snapshot_case [OF h, of example_lib "''2026-11-04T12:00:00+00:00''" "5.12" "0.93"
      "''frankfurter''"] h
  show ?thesis by blast
qed

subsection \<open>C7: blank symbols\<close>

text \<open>
  C7. When every element of \<open>symbols\<close> is blank after \<open>strip\<close> (the empty list
  included), \<open>fetch_latest\<close> and \<open>fetch_timeseries\<close> fail with the \<open>ValueError\<close> of
  \<open>_clean_symbols\<close> and return the world as it was: no file was tested, read or
  written and no request was sent. Otherwise they are \<open>_get_json\<close> on the parameters
  built from the uppercased base and the stripped, uppercased non-blank codes, joined
  by commas in their order.
\<close>

theorem blank_symbols:
  "(if \<forall>s \<in> set symbols. strip s = []
    then fetch_latest lib net c base_arg symbols w
           = (Inl (ValueError ''Informe ao menos um symbol.''), w)
       \<and> fetch_timeseries lib net c start end_arg base_arg symbols w
           = (Inl (ValueError ''Informe ao menos um symbol.''), w)
    else fetch_latest lib net c base_arg symbols w
           = get_json lib net c ''/v1/latest''
               [(''base'', JStr (upper base_arg)),
                (''symbols'', JStr (join '','' (map (\<lambda>s. upper (strip s))
                                                (filter (\<lambda>s. strip s \<noteq> []) symbols))))] w
       \<and> fetch_timeseries lib net c start end_arg base_arg symbols w
           = get_json lib net c (''/v1/'' @ start @ ''..'' @ end_arg)
               [(''base'', JStr (upper base_arg)),
                (''symbols'', JStr (join '','' (map (\<lambda>s. upper (strip s))
                                                (filter (\<lambda>s. strip s \<noteq> []) symbols))))] w)"
proof (cases "\<forall>s \<in> set symbols. strip s = []")
  case True
  then show ?thesis
    by (simp add: fetch_latest_def fetch_timeseries_def clean_symbols_blank)
next
  case False
  then have "\<exists>s \<in> set symbols. strip s \<noteq> []" by blast
  then have "clean_symbols symbols
               = Inr (map (\<lambda>s. upper (strip s)) (filter (\<lambda>s. strip s \<noteq> []) symbols))"
    by (rule clean_symbols_nonblank)
  then have "fetch_latest lib net c base_arg symbols w
           = get_json lib net c ''/v1/latest''
               [(''base'', JStr (upper base_arg)),
                (''symbols'', JStr (join '','' (map (\<lambda>s. upper (strip s))
                                                (filter (\<lambda>s. strip s \<noteq> []) symbols))))] w
       \<and> fetch_timeseries lib net c start end_arg base_arg symbols w
           = get_json lib net c (''/v1/'' @ start @ ''..'' @ end_arg)
               [(''base'', JStr (upper base_arg)),
                (''symbols'', JStr (join '','' (map (\<lambda>s. upper (strip s))
                                                (filter (\<lambda>s. strip s \<noteq> []) symbols))))] w"
    by (simp add: fetch_latest_def fetch_timeseries_def)
  with False show ?thesis by (simp only: if_False)
qed

text \<open>
  A list of blanks fails and leaves the world alone; \<open>[" brl", "  ", "eur "]\<close> with
  base \<open>"usd"\<close> asks for \<open>base=USD\<close>, \<open>symbols=BRL,EUR\<close>.
\<close>

theorem blank_symbols_witness:
  "map strip ['' '', [], [CHR 0x09, CHR 0x0A]] = [[], [], []]
   \<and> fetch_latest example_lib (answer (snapshot_payload 5.12 0.93)) example_client ''usd''
        ['' '', [], [CHR 0x09, CHR 0x0A]] empty_world
       = (Inl (ValueError ''Informe ao menos um symbol.''), empty_world)
   \<and> fetch_timeseries example_lib (answer (snapshot_payload 5.12 0.93)) example_client
        ''2026-02-09'' ''2026-02-10'' ''usd'' ['' '', [], [CHR 0x09, CHR 0x0A]] empty_world
       = (Inl (ValueError ''Informe ao menos um symbol.''), empty_world)
   \<and> map strip ['' brl'', ''  '', ''eur ''] = [''brl'', [], ''eur'']
   \<and> fetch_latest example_lib (answer (snapshot_payload 5.12 0.93)) example_client ''usd''
        ['' brl'', ''  '', ''eur ''] empty_world
       = get_json example_lib (answer (snapshot_payload 5.12 0.93)) example_client ''/v1/latest''
           (latest_params (JStr ''BRL,EUR'')) empty_world
   \<and> fetch_timeseries example_lib (answer (snapshot_payload 5.12 0.93)) example_client
        ''2026-02-09'' ''2026-02-10'' ''usd'' ['' brl'', ''  '', ''eur ''] empty_world
       = get_json example_lib (answer (snapshot_payload 5.12 0.93)) example_client
           ''/v1/2026-02-09..2026-02-10'' (latest_params (JStr ''BRL,EUR'')) empty_world"
proof -
  have blank: "\<forall>s \<in> set ['' '', [], [CHR 0x09, CHR 0x0A]]. strip s = []"
    by (simp add: strip_def is_space_def)
  have nonblank: "\<not> (\<forall>s \<in> set ['' brl'', ''  '', ''eur '']. strip s = [])"
    by (simp add: strip_def is_space_def)
  have codes: "join '','' (map (\<lambda>s. upper (strip s))
                  (filter (\<lambda>s. strip s \<noteq> []) ['' brl'', ''  '', ''eur ''])) = ''BRL,EUR''"
    by code_simp
  have usd: "upper ''usd'' = ''USD''"
    by code_simp
  note a = blank_symbols [of "['' '', [], [CHR 0x09, CHR 0x0A]]" example_lib
      "answer (snapshot_payload 5.12 0.93)" example_client "''usd''" empty_world
      "''2026-02-09''" "''2026-02-10''"]
  note b = blank_symbols [of "['' brl'', ''  '', ''eur '']" example_lib
      "answer (snapshot_payload 5.12 0.93)" example_client "''usd''" empty_world
      "''2026-02-09''" "''2026-02-10''"]
  from a blank have fails:
    "fetch_latest example_lib (answer (snapshot_payload 5.12 0.93)) example_client ''usd''
        ['' '', [], [CHR 0x09, CHR 0x0A]] empty_world
       = (Inl (ValueError ''Informe ao menos um symbol.''), empty_world)
     \<and> fetch_timeseries example_lib (answer (snapshot_payload 5.12 0.93)) example_client
        ''2026-02-09'' ''2026-02-10'' ''usd'' ['' '', [], [CHR 0x09, CHR 0x0A]] empty_world
       = (Inl (ValueError ''Informe ao menos um symbol.''), empty_world)"
    by (simp only: if_True)
  from b nonblank have asks:
    "fetch_latest example_lib (answer (snapshot_payload 5.12 0.93)) example_client ''usd''
        ['' brl'', ''  '', ''eur ''] empty_world
       = get_json example_lib (answer (snapshot_payload 5.12 0.93)) example_client ''/v1/latest''
           (latest_params (JStr ''BRL,EUR'')) empty_world
     \<and> fetch_timeseries example_lib (answer (snapshot_payload 5.12 0.93)) example_client
        ''2026-02-09'' ''2026-02-10'' ''usd'' ['' brl'', ''  '', ''eur ''] empty_world
       = get_json example_lib (answer (snapshot_payload 5.12 0.93)) example_client
           ''/v1/2026-02-09..2026-02-10'' (latest_params (JStr ''BRL,EUR'')) empty_world"
    by (simp only: if_False codes usd latest_params_def append.simps)
  have stripped: "map strip ['' '', [], [CHR 0x09, CHR 0x0A]] = [[], [], []]"
    by (simp add: strip_def is_space_def)
  have stripped': "map strip ['' brl'', ''  '', ''eur ''] = [''brl'', [], ''eur'']"
    by (simp add: strip_def is_space_def)
  from stripped stripped' fails asks show ?thesis by blast
qed

subsection \<open>C8: the empty batch\<close>

text \<open>
  C8. \<open>upsert_rates\<close> on the empty list returns 0 and the store as it was: \<open>fx_rates\<close>
  and everything else unchanged.
\<close>

theorem upsert_rates_empty: "upsert_rates clock [] d = (0, d)"
  by (simp add: upsert_rates_def)

theorem upsert_rates_empty_witness: "upsert_rates next_second [] example_db = (0, example_db)"
  using upsert_rates_empty [of next_second example_db] by simp

subsection \<open>C9: a payload with empty rates\<close>

text \<open>
  C9 as stated does not hold for every validated payload with empty \<open>rates\<close>: the base
  is resolved before the rates are looked at, and with no base override and no base in
  the payload \<open>normalize_payload\<close> fails.
\<close>

theorem empty_rates_counterexample:
  "validate_payload empty_rates_payload = Inr ()
   \<and> dict_get empty_rates_payload ''rates'' = Some (JDict [])
   \<and> normalize_payload example_lib ''2026-02-10T00:00:00+00:00'' empty_rates_payload None
        ''frankfurter'' None
      = Inl (ValueError ''Payload sem base valida.'')"
  by (simp add: normalize_payload_def validate_payload_def base_value_of_def upper_def
      empty_rates_payload_def)

text \<open>
  C9, amended. For every payload whose \<open>rates\<close> is the empty dict, with or without a
  \<open>date\<close> field, \<open>normalize_payload\<close> does what the resolution of the base decides: it
  fails with the error of that resolution, or with "Payload sem base valida." when the
  base resolves to the empty string, and otherwise returns the empty list of rows. In
  particular it returns the empty list whenever a non-empty base override is given. It
  never fails with the missing-date or the malformed-series error.
\<close>

theorem empty_rates:
  assumes "dict_get payload ''rates'' = Some (JDict [])"
  shows "normalize_payload lib now payload base_arg src fetched_at_arg
           = (case base_value_of lib base_arg payload of
                Inl e \<Rightarrow> Inl e
              | Inr base_value \<Rightarrow>
                  if base_value = [] then Inl (ValueError ''Payload sem base valida.'')
                  else Inr [])
       \<and> (\<forall>b. base_arg = Some b \<and> b \<noteq> [] \<longrightarrow>
             normalize_payload lib now payload base_arg src fetched_at_arg = Inr [])"
proof -
  obtain kvs where "payload = JDict kvs" using assms by (cases payload) auto
  with assms have valid: "validate_payload payload = Inr ()"
    by (simp add: validate_payload_def)
  have general: "normalize_payload lib now payload base_arg src fetched_at_arg
           = (case base_value_of lib base_arg payload of
                Inl e \<Rightarrow> Inl e
              | Inr base_value \<Rightarrow>
                  if base_value = [] then Inl (ValueError ''Payload sem base valida.'')
                  else Inr [])"
    using assms valid by (simp add: normalize_payload_def split: sum.splits)
  have "normalize_payload lib now payload base_arg src fetched_at_arg = Inr []"
    if "base_arg = Some b" and "b \<noteq> []" for b
    unfolding general using that by (simp add: base_value_of_def upper_def)
  with general show ?thesis by blast
qed

theorem empty_rates_witness:
  "dict_get empty_rates_payload ''rates'' = Some (JDict [])
   \<and> dict_get empty_rates_payload ''date'' = None
   \<and> normalize_payload example_lib ''2026-02-10T00:00:00+00:00'' empty_rates_payload
        (Some ''USD'') ''frankfurter'' None = Inr []"
proof -
  have h: "dict_get empty_rates_payload ''rates'' = Some (JDict [])"
    by (simp add: empty_rates_payload_def)
  have nodate: "dict_get empty_rates_payload ''date'' = None"
    by (simp add: empty_rates_payload_def)
  from empty_rates [OF h, of example_lib "''2026-02-10T00:00:00+00:00''" "Some ''USD''"
      "''frankfurter''" None]
  have "\<forall>b. Some ''USD'' = Some b \<and> b \<noteq> [] \<longrightarrow>
          normalize_payload example_lib ''2026-02-10T00:00:00+00:00'' empty_rates_payload
            (Some ''USD'') ''frankfurter'' None = Inr []"
    by (rule conjunct2)
  then have "normalize_payload example_lib ''2026-02-10T00:00:00+00:00'' empty_rates_payload
        (Some ''USD'') ''frankfurter'' None = Inr []"
    by simp
  with h nodate show ?thesis by blast
qed

subsection \<open>C10: finishing a run that does not exist\<close>

text \<open>
  C10 as stated does not hold for every identifier that is not in the table: 2^63 is
  the id of no run, since a stored id is a 64-bit integer, and with it the call raises
  \<open>OverflowError\<close> instead of completing.
\<close>

theorem finish_unknown_run_counterexample:
  "9223372036854775808 \<notin> rid ` set (ingest_runs example_db)
   \<and> finish_ingest_run ''2026-02-10T00:01:00+00:00'' 9223372036854775808 ''OK'' 2 None example_db
       = (Inl (OverflowError ''Python int too large to convert to SQLite INTEGER''), example_db)"
  by (simp add: finish_ingest_run_def in_sqlite_range_def example_db_def finished_run_def
      running_run_def)

text \<open>
  C10, amended. When the run id and the row count are inside SQLite's signed 64-bit
  range and no row of \<open>ingest_runs\<close> has the given id, \<open>finish_ingest_run\<close> returns
  without an exception and leaves the whole store as it was: the \<open>UPDATE\<close> matches no
  row.
\<close>

theorem finish_unknown_run:
  assumes "run_id \<notin> rid ` set (ingest_runs d)"
      and "in_sqlite_range run_id" and "in_sqlite_range n"
  shows "finish_ingest_run now run_id new_status n err d = (Inr (), d)"
proof -
  have "\<forall>r \<in> set (ingest_runs d). \<not> rid r = run_id" using assms(1) by blast
  then have "map (\<lambda>r. if rid r = run_id
                       then r\<lparr>status := new_status, finished_at := Some now,
                              rows_inserted := n, error_message := err\<rparr>
                       else r) (ingest_runs d) = ingest_runs d"
    by (rule map_no_match)
  with assms(2,3) show ?thesis by (simp add: finish_ingest_run_def)
qed

theorem finish_unknown_run_witness:
  "7 \<notin> rid ` set (ingest_runs example_db)
   \<and> in_sqlite_range 7
   \<and> in_sqlite_range 2
   \<and> finish_ingest_run ''2026-02-10T00:01:00+00:00'' 7 ''OK'' 2 None example_db
       = (Inr (), example_db)"
proof -
  have h: "7 \<notin> rid ` set (ingest_runs example_db)"
    by (simp add: example_db_def finished_run_def running_run_def)
  have r7: "in_sqlite_range 7" by (simp add: in_sqlite_range_def)
  have r2: "in_sqlite_range 2" by (simp add: in_sqlite_range_def)
  from finish_unknown_run [OF h r7 r2, of "''2026-02-10T00:01:00+00:00''" "''OK''" None] h r7 r2
  show ?thesis by blast
qed

end
